theory Spec2Isabelle
  imports
    Complex_Main
    "HOL-Library.AList"
    "HOL-Library.Char_ord"
    "HOL-Library.List_Lexorder"
    "HOL-Library.Multiset"
    "HOL-Library.Product_Lexorder"
begin

section \<open>The NPI dashboard (app2.py): reference tables\<close>

text \<open>
  A Python \<open>dict\<close> is modelled as an association list in insertion order.
  Looking a key up takes the first pair with that key (\<open>map_of\<close>); storing a value under
  a key that is already present replaces the value in place, storing under a new key
  appends (\<open>AList.update\<close>). Python strings are \<open>string\<close>; every string of the
  reference tables is ASCII, so \<open>length\<close> counts what Python's \<open>len\<close> counts.
\<close>

type_synonym ('k, 'v) dict = "('k \<times> 'v) list"

text \<open>\<open>d.get(x, x)\<close>: the value stored under \<open>x\<close>, or \<open>x\<close> itself.\<close>

definition dict_get :: "('k, 'k) dict \<Rightarrow> 'k \<Rightarrow> 'k" where
  "dict_get d x = (case map_of d x of Some v \<Rightarrow> v | None \<Rightarrow> x)"

text \<open>Lines 61 to 66: regions and their member state codes.\<close>

definition region_mapping :: "(string, string list) dict" where
  "region_mapping =
    [(''Northeast'', [''ME'', ''NH'', ''VT'', ''MA'', ''RI'', ''CT'', ''NY'', ''NJ'', ''PA'']),
     (''Midwest'', [''OH'', ''MI'', ''IN'', ''IL'', ''WI'', ''MN'', ''IA'', ''MO'', ''ND'', ''SD'',
                    ''NE'', ''KS'']),
     (''South'', [''DE'', ''MD'', ''DC'', ''VA'', ''WV'', ''NC'', ''SC'', ''GA'', ''FL'', ''KY'',
                  ''TN'', ''AL'', ''MS'', ''AR'', ''LA'', ''OK'', ''TX'']),
     (''West'', [''MT'', ''ID'', ''WY'', ''CO'', ''NM'', ''AZ'', ''UT'', ''NV'', ''WA'', ''OR'',
                 ''CA'', ''AK'', ''HI''])]"

text \<open>Lines 69 to 87: state codes and their display names, key by key as the source has them.\<close>

definition state_code_to_name :: "(string, string) dict" where
  "state_code_to_name =
    [(''AL'', ''Alabama''), (''AK'', ''Alaska''), (''AZ'', ''Arizona''), (''AR'', ''Arkansas''),
     (''CA'', ''California''), (''CO'', ''Colorado''), (''CT'', ''Connecticut''),
     (''DE'', ''Delaware''), (''FL'', ''Florida''), (''GA'', ''Georgia''),
     (''HI'', ''Hawaii''), (''ID'', ''Idaho''), (''IL'', ''Illinois''),
     (''IN'', ''Indiana''), (''IA'', ''Iowa''), (''KS'', ''Kansas''),
     (''KY'', ''Kentucky''), (''LA'', ''Louisiana''), (''ME'', ''Maine''),
     (''MD'', ''Maryland''), (''MA'', ''Massachusetts''), (''MI'', ''Michigan''),
     (''MN'', ''Minnesota''), (''MS'', ''Mississippi''), (''MO'', ''Missouri''),
     (''MT'', ''Montana''), (''NE'', ''Nebraska''), (''NV'', ''Nevada''),
     (''NH'', ''New Hampshire''), (''NJ'', ''New Jersey''), (''_NM'', ''New Mexico''),
     (''NY'', ''New York''), (''NC'', ''North Carolina''), (''ND'', ''North Dakota''),
     (''OH'', ''Ohio''), (''OK'', ''Oklahoma''), (''OR'', ''Oregon''),
     (''PA'', ''Pennsylvania''), (''RI'', ''Rhode Island''), (''SC'', ''South Carolina''),
     (''SD'', ''South Dakota''), (''TN'', ''Tennessee''), (''TX'', ''Texas''),
     (''UT'', ''Utah''), (''VT'', ''Vermont''), (''VA'', ''Virginia''),
     (''WA'', ''Washington''), (''WV'', ''West Virginia''), (''WI'', ''Wisconsin''),
     (''WY'', ''Wyoming''), (''DC'', ''District of Columbia'')]"

text \<open>
  Line 90: \<open>{v: k for k, v in state_code_to_name.items()}\<close>. The comprehension walks the
  items in order and stores each code under its name.
\<close>

definition state_name_to_code :: "(string, string) dict" where
  "state_name_to_code = fold (\<lambda>(k, v) d. AList.update v k d) state_code_to_name []"

text \<open>
  Lines 198 to 202 (and again 221 to 225): the first region, in the order of the table,
  whose member list holds the code; \<open>Unknown\<close> when none does. The loop over
  \<open>region_mapping.items()\<close> is the recursion over the list of items.
\<close>

fun get_region_in :: "(string, string list) dict \<Rightarrow> string \<Rightarrow> string" where
  "get_region_in [] state_code = ''Unknown''"
| "get_region_in ((r, states) # rest) state_code =
     (if state_code \<in> set states then r else get_region_in rest state_code)"

definition get_region :: "string \<Rightarrow> string" where
  "get_region state_code = get_region_in region_mapping state_code"

section \<open>Sheets and frames\<close>

text \<open>
  Float64 values. The script hands them to pandas and to Python's formatting and never
  computes with them itself, so the model does not compute with them either: a value is a
  number read from a cell, NaN (what a blank cell is read as), or the result of a library
  operation, kept as that operation applied to its arguments.
\<close>

datatype float64 =
  Float real
  | NaN
  | Mean "float64 list"
  | Median "float64 list"
  | Minimum "float64 list"
  | Maximum "float64 list"
  | Std "float64 list"
  | Round1 float64
  | Percent nat nat

text \<open>
  \<open>Mean\<close> to \<open>Std\<close> are the reductions of a column (\<open>.mean()\<close>, \<open>.median()\<close>, \<open>.min()\<close>,
  \<open>.max()\<close>, \<open>.std()\<close>), \<open>Round1\<close> is \<open>.round(1)\<close>, \<open>Percent n total\<close> is
  \<open>n / total * 100\<close> on two counts. \<open>Fmt2 v\<close> is the string \<open>f"{v:.2f}"\<close>.
\<close>

datatype display = Fmt2 float64

text \<open>A cell of a sheet: a string, a number, or nothing.\<close>

datatype cell = Text string | Number float64 | Blank

text \<open>
  One row of the uploaded sheet. The script reads four columns (lines 40 to 43): the three
  text columns, whose cells hold a string or are blank (\<open>None\<close>; pandas reads a blank cell
  as NaN), and the usage time. Every other column of the sheet, NPI among them, is only
  ever copied to the exports: \<open>other\<close> holds those cells by column name.
\<close>

record provider =
  Speciality :: "string option"
  State :: "string option"
  Region :: "string option"
  Usage_Time :: float64
  other :: "(string, cell) dict"

text \<open>
  A sheet: the names of its columns, in the order of the sheet, and its rows. An uploaded
  sheet is taken to have no column named StateCode, StateName or MappedRegion.
\<close>

record sheet =
  header :: "string list"
  rows :: "provider list"

text \<open>
  A data frame after \<open>standardize_state_codes\<close>: the sheet, and the three columns the
  function may add. A column of a data frame exists for the whole frame or not at all,
  also when the frame has no row, so each added column is an optional list that runs
  parallel to \<open>rows\<close>; \<open>None\<close> is "the frame has no such column".
\<close>

record frame = sheet +
  StateCode :: "string option list option"
  StateName :: "string option list option"
  MappedRegion :: "string list option"

text \<open>
  What the program can raise or do instead of going on. \<open>KeyError c\<close> is pandas' error
  for a column \<open>c\<close> the frame does not have, \<open>TypeError\<close> is Python's for \<open>len\<close> of a
  float and for comparing a string with a float; both are caught at line 509 and shown as
  "Error processing data". \<open>Stopped\<close> is \<open>st.stop()\<close> after the warning of line 128.
\<close>

datatype failure = KeyError string | TypeError | Stopped

text \<open>\<open>df[mask]\<close>: the entries whose mask bit is set, in order.\<close>

definition boolean_index :: "bool list \<Rightarrow> 'a list \<Rightarrow> 'a list" where
  "boolean_index keep xs = map snd (filter fst (zip keep xs))"

text \<open>The cells of a column that are not blank, as \<open>dropna\<close> leaves them.\<close>

definition dropna :: "'a option list \<Rightarrow> 'a list" where
  "dropna col = map the (filter (\<lambda>c. c \<noteq> None) col)"

section \<open>Filter stage (lines 105 to 129)\<close>

text \<open>
  Lines 105 and 106: \<open>sorted(df[col].unique())\<close>, the options of a selector. Python cannot
  order a string and NaN, so a column with both raises; a column of blanks alone has the
  one option NaN.
\<close>

definition selector_options :: "string option list \<Rightarrow> failure + string option list" where
  "selector_options col =
     (if dropna col \<noteq> [] \<and> None \<in> set col then Inl TypeError
      else if dropna col \<noteq> [] then Inr (map Some (sort (remdups (dropna col))))
      else Inr (remdups col))"

text \<open>Lines 115 and 116: the sentinel of the region selector stands for no region.\<close>

definition chosen_region :: "string \<Rightarrow> string option" where
  "chosen_region selected_region =
     (if selected_region = ''All Regions'' then None else Some selected_region)"

text \<open>
  \<open>if selected_specialty:\<close> and \<open>if selected_region:\<close> test truthiness: \<open>None\<close> and the
  empty string are false.
\<close>

definition truthy :: "string option \<Rightarrow> bool" where
  "truthy s = (case s of None \<Rightarrow> False | Some v \<Rightarrow> v \<noteq> [])"

text \<open>
  Lines 119 to 129. A selection is a string; a blank cell equals no string, so a row with
  a blank Speciality or Region passes no comparison.
\<close>

definition filtered_df :: "sheet \<Rightarrow> string \<Rightarrow> string option \<Rightarrow> failure + sheet" where
  "filtered_df df selected_specialty selected_region =
     (if selected_specialty \<noteq> [] then
        (let by_specialty = filter (\<lambda>x. Speciality x = Some selected_specialty) (rows df)
         in if truthy selected_region
            then Inr (df\<lparr>rows := filter (\<lambda>x. Region x = selected_region) by_specialty\<rparr>)
            else Inr (df\<lparr>rows := by_specialty\<rparr>))
      else Inl Stopped)"

section \<open>State normalizer (lines 178 to 206)\<close>

text \<open>
  Line 182: \<open>value_counts().index.tolist()\<close> lists the distinct values of the column that
  are not blank (\<open>value_counts\<close> leaves NaN out). The list is only ever asked for
  membership (\<open>isin\<close>), so its order is left out.
\<close>

definition valid_states :: "sheet \<Rightarrow> string list" where
  "valid_states df_to_process = remdups (dropna (map State (rows df_to_process)))"

text \<open>
  Lines 188 and 190: the resolved codes, from the names when the column holds full names.
  \<open>state_name_to_code.get(x, x)\<close> of a blank cell is the blank cell.
\<close>

definition resolved_codes :: "bool \<Rightarrow> string option list \<Rightarrow> string option list" where
  "resolved_codes full_names states =
     (if full_names then map (map_option (dict_get state_name_to_code)) states else states)"

text \<open>Line 192: the display names, a column of the code form only.\<close>

definition resolved_names :: "bool \<Rightarrow> string option list \<Rightarrow> string option list option" where
  "resolved_names full_names states =
     (if full_names then None else Some (map (map_option (dict_get state_code_to_name)) states))"

text \<open>\<open>isin\<close> of one cell: a blank cell is in no list of strings.\<close>

definition isin :: "string option \<Rightarrow> string list \<Rightarrow> bool" where
  "isin c valid = (case c of None \<Rightarrow> False | Some v \<Rightarrow> v \<in> set valid)"

text \<open>Line 195: \<open>StateCode.isin(valid_states) | State.isin(valid_states)\<close>, row by row.\<close>

definition retention_mask ::
  "string list \<Rightarrow> string option list \<Rightarrow> string option list \<Rightarrow> bool list" where
  "retention_mask valid codes states = map (\<lambda>(c, s). isin c valid \<or> isin s valid) (zip codes states)"

text \<open>Line 204: \<open>get_region\<close> of one cell; NaN is a member of no list.\<close>

definition region_of_cell :: "string option \<Rightarrow> string" where
  "region_of_cell c = (case c of None \<Rightarrow> ''Unknown'' | Some state_code \<Rightarrow> get_region state_code)"

text \<open>
  Lines 185 and 186: nothing is added to a frame with no row; otherwise the form of the
  whole column is read off the length of its first value, and \<open>len\<close> of a blank cell
  raises.
\<close>

definition standardize_state_codes :: "sheet \<Rightarrow> failure + frame" where
  "standardize_state_codes df_to_process =
     (let data_df = df_to_process;
          valid = valid_states df_to_process
      in case rows data_df of
           [] \<Rightarrow> Inr \<lparr>header = header data_df, rows = [],
                      StateCode = None, StateName = None, MappedRegion = None\<rparr>
         | first # _ \<Rightarrow>
             (case State first of
                None \<Rightarrow> Inl TypeError
              | Some v \<Rightarrow>
                  (let states = map State (rows data_df);
                       codes = resolved_codes (2 < length v) states;
                       names = resolved_names (2 < length v) states;
                       keep = retention_mask valid codes states;
                       kept_codes = boolean_index keep codes
                   in Inr \<lparr>header = header data_df,
                           rows = boolean_index keep (rows data_df),
                           StateCode = Some kept_codes,
                           StateName = map_option (boolean_index keep) names,
                           MappedRegion = Some (map region_of_cell kept_codes)\<rparr>)))"


section \<open>Exports (lines 136 to 142)\<close>

text \<open>
  \<open>to_csv(index=False)\<close> and \<open>to_excel(index=False)\<close> write the header and then each row
  of the frame they are called on. The bytes are the library's business; the model keeps
  the content: the column names and, row by row, the cells.
\<close>

definition text_cell :: "string option \<Rightarrow> cell" where
  "text_cell c = (case c of None \<Rightarrow> Blank | Some v \<Rightarrow> Text v)"

text \<open>The cell of a row under a column name of the sheet.\<close>

definition cell_at :: "provider \<Rightarrow> string \<Rightarrow> cell" where
  "cell_at x name =
     (if name = ''Speciality'' then text_cell (Speciality x)
      else if name = ''State'' then text_cell (State x)
      else if name = ''Region'' then text_cell (Region x)
      else if name = ''Usage Time (mins)'' then Number (Usage_Time x)
      else (case map_of (other x) name of None \<Rightarrow> Blank | Some c \<Rightarrow> c))"

definition sheet_content :: "sheet \<Rightarrow> string list \<times> cell list list" where
  "sheet_content df = (header df, map (\<lambda>x. map (cell_at x) (header df)) (rows df))"


definition csv_data :: "sheet \<Rightarrow> string list \<times> cell list list" where
  "csv_data filtered = sheet_content filtered"

definition excel_data :: "sheet \<Rightarrow> string list \<times> cell list list" where
  "excel_data filtered = sheet_content filtered"

section \<open>Aggregation (lines 217 to 479)\<close>

subsection \<open>The library's operations\<close>

text \<open>
  \<open>groupby(...)\<close> lists the distinct keys in ascending order (its default is
  \<open>sort=True\<close>) and leaves rows with a blank key out (its default is \<open>dropna=True\<close>);
  \<open>size()\<close> counts the rows of each key, and a column selected from the groups comes as
  the values of each key, in row order.
\<close>

definition group_keys :: "'k::linorder option list \<Rightarrow> 'k list" where
  "group_keys col = sort (remdups (dropna col))"

definition groupby_size :: "'k::linorder option list \<Rightarrow> ('k \<times> nat) list" where
  "groupby_size col = map (\<lambda>k. (k, count_list col (Some k))) (group_keys col)"

definition groupby_values :: "'k::linorder option list \<Rightarrow> 'v list \<Rightarrow> ('k \<times> 'v list) list" where
  "groupby_values col vals =
     map (\<lambda>k. (k, map snd (filter (\<lambda>(k', v). k' = Some k) (zip col vals)))) (group_keys col)"

text \<open>The key of \<open>groupby([a, b])\<close>: blank when either cell is.\<close>

definition key_pair :: "'a option \<Rightarrow> 'b option \<Rightarrow> ('a \<times> 'b) option" where
  "key_pair a b = (case (a, b) of (Some x, Some y) \<Rightarrow> Some (x, y) | _ \<Rightarrow> None)"

text \<open>
  \<open>sort_values('Count', ascending=False)\<close> is called with pandas' default
  \<open>kind='quicksort'\<close>, which promises the rows in descending order of the count and
  nothing about rows of equal count. The tables below take the sort as an argument.
  \<open>sort_values_desc\<close> is the sort that keeps rows of equal key in the order they had
  (pandas reverses the column, sorts it ascending and reverses the outcome, and numpy's
  default leaves equal keys in place on short columns).
\<close>

type_synonym top_state = "string \<times> string \<times> nat \<times> string"

definition Count :: "top_state \<Rightarrow> nat" where
  "Count = (\<lambda>(state_code, state, n, name). n)"

definition sort_values_desc :: "('a \<Rightarrow> 'k::linorder) \<Rightarrow> 'a list \<Rightarrow> 'a list" where
  "sort_values_desc key xs = rev (sort_key key (rev xs))"

subsection \<open>The dashboard's tables\<close>

text \<open>\<open>region_mapping.get(selected_region, [])\<close>.\<close>

definition region_members :: "string \<Rightarrow> string list" where
  "region_members r = (case map_of region_mapping r of Some states \<Rightarrow> states | None \<Rightarrow> [])"

text \<open>Lines 217 to 232: StateCode, NPI_Count, name, Region.\<close>

definition state_counts ::
  "frame \<Rightarrow> string option \<Rightarrow> failure + (string \<times> nat \<times> string \<times> string) list" where
  "state_counts f selected_region =
     (case StateCode f of
        None \<Rightarrow> Inl (KeyError ''StateCode'')
      | Some codes \<Rightarrow>
          (let counts = map (\<lambda>(c, n). (c, n, dict_get state_code_to_name c, get_region c))
                          (groupby_size codes)
           in if truthy selected_region
              then Inr (filter (\<lambda>(c, _). c \<in> set (region_members (the selected_region))) counts)
              else Inr counts))"

text \<open>Lines 305 and 306: MappedRegion, NPI_Count, Percentage.\<close>

definition region_counts :: "frame \<Rightarrow> failure + (string \<times> nat \<times> float64) list" where
  "region_counts f =
     (case MappedRegion f of
        None \<Rightarrow> Inl (KeyError ''MappedRegion'')
      | Some regions \<Rightarrow>
          (let counts = groupby_size (map Some regions);
               total = sum_list (map snd counts)
           in Inr (map (\<lambda>(r, n). (r, n, Round1 (Percent n total))) counts)))"

text \<open>Lines 325 and 326: StateCode, NPI_Count, name.\<close>

definition region_states :: "frame \<Rightarrow> failure + (string \<times> nat \<times> string) list" where
  "region_states f =
     (case StateCode f of
        None \<Rightarrow> Inl (KeyError ''StateCode'')
      | Some codes \<Rightarrow>
          Inr (map (\<lambda>(c, n). (c, n, dict_get state_code_to_name c)) (groupby_size codes)))"

text \<open>Lines 349 and 350: MappedRegion, mean usage time rounded to one decimal.\<close>

definition usage_by_region :: "frame \<Rightarrow> failure + (string \<times> float64) list" where
  "usage_by_region f =
     (case MappedRegion f of
        None \<Rightarrow> Inl (KeyError ''MappedRegion'')
      | Some regions \<Rightarrow>
          Inr (map (\<lambda>(r, usage). (r, Round1 (Mean usage)))
                 (groupby_values (map Some regions) (map Usage_Time (rows f)))))"

text \<open>Lines 363 to 365: StateCode, mean usage time rounded to one decimal, StateName.\<close>

definition usage_by_state :: "frame \<Rightarrow> failure + (string \<times> float64 \<times> string) list" where
  "usage_by_state f =
     (case StateCode f of
        None \<Rightarrow> Inl (KeyError ''StateCode'')
      | Some codes \<Rightarrow>
          Inr (map (\<lambda>(c, usage). (c, Round1 (Mean usage), dict_get state_code_to_name c))
                 (groupby_values codes (map Usage_Time (rows f)))))"

text \<open>
  Lines 454 to 456: the groups are the pairs of resolved code and raw State value;
  StateCode, State, Count, State Name; the ten first after the sort.
\<close>

definition top_states ::
  "(top_state list \<Rightarrow> top_state list) \<Rightarrow> frame \<Rightarrow> failure + top_state list" where
  "top_states sort_values f =
     (case StateCode f of
        None \<Rightarrow> Inl (KeyError ''StateCode'')
      | Some codes \<Rightarrow>
          (let counts = map (\<lambda>((c, s), n). (c, s, n, dict_get state_code_to_name c))
                          (groupby_size (map (\<lambda>(c, s). key_pair c s)
                                           (zip codes (map State (rows f)))))
           in Inr (take 10 (sort_values counts))))"

text \<open>Line 460: the two columns the listing shows.\<close>

definition top_states_listing :: "top_state list \<Rightarrow> (string \<times> nat) list" where
  "top_states_listing t = map (\<lambda>(c, s, n, name). (name, n)) t"

text \<open>Lines 468 to 477.\<close>

definition stats_df :: "frame \<Rightarrow> (string \<times> display) list" where
  "stats_df f =
     (let usage = map Usage_Time (rows f)
      in [(''Mean'', Fmt2 (Mean usage)),
          (''Median'', Fmt2 (Median usage)),
          (''Minimum'', Fmt2 (Minimum usage)),
          (''Maximum'', Fmt2 (Maximum usage)),
          (''Standard Deviation'', Fmt2 (Std usage))])"

text \<open>
  The two charts of the regional analysis show one table or the other, by
  \<open>selected_region is None\<close> (lines 304 and 347).
\<close>

datatype distribution =
  By_Region "(string \<times> nat \<times> float64) list" | By_State "(string \<times> nat \<times> string) list"

datatype usage =
  Usage_By_Region "(string \<times> float64) list" | Usage_By_State "(string \<times> float64 \<times> string) list"

definition regional_distribution :: "frame \<Rightarrow> string option \<Rightarrow> failure + distribution" where
  "regional_distribution f selected_region =
     (if selected_region = None then map_sum id By_Region (region_counts f)
      else map_sum id By_State (region_states f))"

definition usage_analysis :: "frame \<Rightarrow> string option \<Rightarrow> failure + usage" where
  "usage_analysis f selected_region =
     (if selected_region = None then map_sum id Usage_By_Region (usage_by_region f)
      else map_sum id Usage_By_State (usage_by_state f))"

record aggregates =
  agg_state_counts :: "(string \<times> nat \<times> string \<times> string) list"
  agg_distribution :: distribution
  agg_usage :: usage
  agg_top_states :: "top_state list"
  agg_stats :: "(string \<times> display) list"

text \<open>
  The tables in the order the script computes them; the first error ends the run, as the
  exception does.
\<close>

definition aggregation_stage ::
  "(top_state list \<Rightarrow> top_state list) \<Rightarrow> frame \<Rightarrow> string option \<Rightarrow> failure + aggregates" where
  "aggregation_stage sort_values f selected_region =
     (case state_counts f selected_region of
        Inl e \<Rightarrow> Inl e
      | Inr sc \<Rightarrow>
     (case regional_distribution f selected_region of
        Inl e \<Rightarrow> Inl e
      | Inr pie \<Rightarrow>
     (case usage_analysis f selected_region of
        Inl e \<Rightarrow> Inl e
      | Inr us \<Rightarrow>
     (case top_states sort_values f of
        Inl e \<Rightarrow> Inl e
      | Inr ts \<Rightarrow>
          Inr \<lparr>agg_state_counts = sc, agg_distribution = pie, agg_usage = us,
               agg_top_states = ts, agg_stats = stats_df f\<rparr>))))"

text \<open>
  \<open>df[name]\<close> of a column the script reads: \<open>KeyError\<close> when the sheet has no such column.
\<close>

definition read_column :: "sheet \<Rightarrow> string \<Rightarrow> (provider \<Rightarrow> 'a) \<Rightarrow> failure + 'a list" where
  "read_column df name field =
     (if name \<in> set (header df) then Inr (map field (rows df)) else Inl (KeyError name))"

text \<open>
  One render, from the upload and the two selections (line 95 onwards). The options of the
  two selectors come first (lines 105 and 106); a selection is an argument here, whatever
  the options are. The exports are made from \<open>filtered_df\<close> and handed to the download
  buttons (lines 136 to 159) before the overview reads State and usage time (lines 167 and
  168) and before the normalizer runs, so they are there whether or not a later line
  raises.
\<close>

definition dashboard ::
  "(top_state list \<Rightarrow> top_state list) \<Rightarrow> sheet \<Rightarrow> string \<Rightarrow> string \<Rightarrow>
   failure +
   ((string list \<times> cell list list) \<times> (string list \<times> cell list list) \<times> (failure + aggregates))" where
  "dashboard sort_values df selected_specialty region_choice =
     (case read_column df ''Speciality'' Speciality of
        Inl e \<Rightarrow> Inl e
      | Inr speciality \<Rightarrow>
     (case selector_options speciality of
        Inl e \<Rightarrow> Inl e
      | Inr specialties \<Rightarrow>
     (case read_column df ''Region'' Region of
        Inl e \<Rightarrow> Inl e
      | Inr region \<Rightarrow>
     (case selector_options region of
        Inl e \<Rightarrow> Inl e
      | Inr regions \<Rightarrow>
     (case filtered_df df selected_specialty (chosen_region region_choice) of
        Inl e \<Rightarrow> Inl e
      | Inr filtered \<Rightarrow>
          Inr (csv_data filtered, excel_data filtered,
               (case read_column filtered ''State'' State of
                  Inl e \<Rightarrow> Inl e
                | Inr state \<Rightarrow>
               (case read_column filtered ''Usage Time (mins)'' Usage_Time of
                  Inl e \<Rightarrow> Inl e
                | Inr usage_time \<Rightarrow>
               (case standardize_state_codes filtered of
                  Inl e \<Rightarrow> Inl e
                | Inr processed \<Rightarrow>
                    aggregation_stage sort_values processed
                      (chosen_region region_choice))))))))))"

section \<open>Example sheets\<close>

text \<open>A row of a sheet with the five columns of the expected format (lines 39 to 43).\<close>

definition entry :: "string \<Rightarrow> string \<Rightarrow> string \<Rightarrow> string \<Rightarrow> real \<Rightarrow> provider" where
  "entry npi speciality state region usage =
     \<lparr>Speciality = Some speciality, State = Some state, Region = Some region,
      Usage_Time = Float usage, other = [(''NPI'', Text npi)]\<rparr>"

definition expected_columns :: "string list" where
  "expected_columns = [''NPI'', ''Speciality'', ''State'', ''Region'', ''Usage Time (mins)'']"

text \<open>Lines 49 to 57: the sample the script itself shows as the expected format.\<close>

definition sample_df :: sheet where
  "sample_df =
    \<lparr>header = expected_columns,
     rows = [entry ''1234567890'' ''Cardiology'' ''NY'' ''Northeast'' 45.2,
             entry ''2345678901'' ''Pediatrics'' ''CA'' ''West'' 32.7,
             entry ''3456789012'' ''Oncology'' ''TX'' ''South'' 58.1,
             entry ''4567890123'' ''Cardiology'' ''FL'' ''South'' 41.5,
             entry ''5678901234'' ''Neurology'' ''IL'' ''Midwest'' 37.8]\<rparr>"



text \<open>A sheet that mixes the two forms of one state.\<close>

definition mixed_forms_df :: sheet where
  "mixed_forms_df =
    \<lparr>header = expected_columns,
     rows = [entry ''1234567890'' ''Cardiology'' ''New York'' ''Northeast'' 45.2,
             entry ''2345678901'' ''Cardiology'' ''NY'' ''Northeast'' 32.7,
             entry ''3456789012'' ''Cardiology'' ''NY'' ''Northeast'' 58.1]\<rparr>"

text \<open>A sheet whose Region column disagrees with its states.\<close>

definition mislabelled_df :: sheet where
  "mislabelled_df =
    \<lparr>header = expected_columns,
     rows = [entry ''1234567890'' ''Cardiology'' ''NY'' ''West'' 45.2,
             entry ''2345678901'' ''Cardiology'' ''CA'' ''South'' 41.5,
             entry ''3456789012'' ''Cardiology'' ''PA'' ''West'' 30.5,
             entry ''4567890123'' ''Cardiology'' ''CA'' ''Northeast'' 20]\<rparr>"

text \<open>A sheet with twelve states, some of them more than once.\<close>

definition twelve_states_df :: sheet where
  "twelve_states_df =
    \<lparr>header = expected_columns,
     rows = [entry ''01'' ''Cardiology'' ''WA'' ''West'' 10,
             entry ''02'' ''Cardiology'' ''TX'' ''South'' 11,
             entry ''03'' ''Cardiology'' ''NY'' ''Northeast'' 12,
             entry ''04'' ''Cardiology'' ''PA'' ''Northeast'' 13,
             entry ''05'' ''Cardiology'' ''OH'' ''Midwest'' 14,
             entry ''06'' ''Cardiology'' ''NY'' ''Northeast'' 15,
             entry ''07'' ''Cardiology'' ''NJ'' ''Northeast'' 16,
             entry ''08'' ''Cardiology'' ''MA'' ''Northeast'' 17,
             entry ''09'' ''Cardiology'' ''TX'' ''South'' 18,
             entry ''10'' ''Cardiology'' ''IL'' ''Midwest'' 19,
             entry ''11'' ''Cardiology'' ''GA'' ''South'' 20,
             entry ''12'' ''Cardiology'' ''NY'' ''Northeast'' 21,
             entry ''13'' ''Cardiology'' ''FL'' ''South'' 22,
             entry ''14'' ''Cardiology'' ''CA'' ''West'' 23,
             entry ''15'' ''Cardiology'' ''AZ'' ''West'' 24,
             entry ''16'' ''Cardiology'' ''CA'' ''West'' 25]\<rparr>"

text \<open>The rows of the sample with specialty Cardiology.\<close>

definition cardiology_df :: sheet where
  "cardiology_df =
    \<lparr>header = expected_columns,
     rows = [entry ''1234567890'' ''Cardiology'' ''NY'' ''Northeast'' 45.2,
             entry ''4567890123'' ''Cardiology'' ''FL'' ''South'' 41.5]\<rparr>"

section \<open>Properties of the reference tables\<close>

lemma state_name_to_code_items:
  "state_name_to_code = map (\<lambda>(k, v). (v, k)) state_code_to_name"
  by (simp add: state_name_to_code_def state_code_to_name_def)

lemma map_of_swap:
  "distinct (map snd xs) \<Longrightarrow> (k, v) \<in> set xs \<Longrightarrow> map_of (map (\<lambda>(k, v). (v, k)) xs) v = Some k"
  by (induction xs) (auto simp: rev_image_eqI)

lemma names_distinct: "distinct (map snd state_code_to_name)"
  by (simp add: state_code_to_name_def)

lemma region_names_distinct: "distinct (map fst region_mapping)"
  by (simp add: region_mapping_def)

text \<open>No state code is listed under two regions, nor twice under one.\<close>

lemma region_members_disjoint: "distinct (concat (map snd region_mapping))"
  by (simp add: region_mapping_def)

text \<open>The keys of the code table that no region lists: \<open>_NM\<close> and no other.\<close>

lemma mapped_codes_outside_regions:
  "filter (\<lambda>c. c \<notin> set (concat (map snd region_mapping))) (map fst state_code_to_name)
     = [''_NM'']"
  by (simp add: state_code_to_name_def region_mapping_def)

text \<open>
  C3. The claim: every state code with an entry in the code-to-name table belongs to
  exactly one of the four region member lists, and the four lists are pairwise disjoint.
  The lists are disjoint (\<open>region_members_disjoint\<close>), but the code table has the key
  \<open>_NM\<close> for New Mexico, which no region lists: its region resolves to \<open>Unknown\<close>. The
  region table has \<open>NM\<close>, which in turn has no entry in the code table.
\<close>

theorem mapped_code_outside_every_region:
  "map_of state_code_to_name ''_NM'' = Some ''New Mexico'' \<and>
   ''_NM'' \<notin> set (concat (map snd region_mapping)) \<and>
   get_region ''_NM'' = ''Unknown'' \<and>
   get_region ''NM'' = ''West'' \<and>
   map_of state_code_to_name ''NM'' = None"
  by (simp add: state_code_to_name_def region_mapping_def get_region_def)

text \<open>
  C6. For every state code that is a key of the code-to-name table, mapping it through
  code-to-name and then through name-to-code returns the original code.
\<close>

theorem code_name_code_round_trip:
  assumes "code \<in> fst ` set state_code_to_name"
  shows "dict_get state_name_to_code (dict_get state_code_to_name code) = code"
proof -
  from assms obtain name where n: "map_of state_code_to_name code = Some name"
    by (metis domD dom_map_of_conv_image_fst)
  then have "(code, name) \<in> set state_code_to_name"
    by (rule map_of_SomeD)
  then have "map_of state_name_to_code name = Some code"
    unfolding state_name_to_code_items by (rule map_of_swap [OF names_distinct])
  with n show ?thesis
    by (simp add: dict_get_def)
qed

theorem code_name_code_round_trip_witness:
  "''NY'' \<in> fst ` set state_code_to_name \<and>
   dict_get state_code_to_name ''NY'' = ''New York'' \<and>
   dict_get state_name_to_code (dict_get state_code_to_name ''NY'') = ''NY''"
proof -
  have h: "''NY'' \<in> fst ` set state_code_to_name"
    by (simp add: state_code_to_name_def)
  have n: "dict_get state_code_to_name ''NY'' = ''New York''"
    by (simp add: dict_get_def state_code_to_name_def)
  show ?thesis
    using h n code_name_code_round_trip [OF h] by simp
qed

lemma get_region_in_member:
  "distinct (map fst d) \<Longrightarrow> get_region_in d c \<noteq> ''Unknown'' \<Longrightarrow>
   \<exists>states. map_of d (get_region_in d c) = Some states \<and> c \<in> set states"
proof (induction d)
  case Nil
  then show ?case by simp
next
  case (Cons p d)
  obtain r states where p: "p = (r, states)"
    by (cases p)
  show ?case
  proof (cases "c \<in> set states")
    case True
    then show ?thesis by (simp add: p)
  next
    case False
    with Cons.prems p have u: "get_region_in d c \<noteq> ''Unknown''" and dist: "distinct (map fst d)"
      by simp_all
    from Cons.IH [OF dist u] obtain m
      where m: "map_of d (get_region_in d c) = Some m" "c \<in> set m"
      by blast
    from m(1) have "get_region_in d c \<in> fst ` set d"
      by (metis domI dom_map_of_conv_image_fst)
    with Cons.prems(1) p have "get_region_in d c \<noteq> r"
      by auto
    with m False show ?thesis by (simp add: p)
  qed
qed

lemma get_region_member:
  "get_region c \<noteq> ''Unknown'' \<Longrightarrow> c \<in> set (region_members (get_region c))"
  using get_region_in_member [OF region_names_distinct, of c]
  by (auto simp: get_region_def region_members_def)

section \<open>Properties of the normalizer\<close>

lemma boolean_index_map:
  "boolean_index (map P xs) (map f xs) = map f (filter P xs)"
  by (induction xs) (simp_all add: boolean_index_def)

lemma boolean_index_rows:
  "boolean_index (map P xs) xs = filter P xs"
  using boolean_index_map [of P xs id] by simp

lemma member_dropna: "v \<in> set (dropna col) \<longleftrightarrow> Some v \<in> set col"
  by (induction col) (auto simp: dropna_def)

lemma member_valid_states: "v \<in> set (valid_states df) \<longleftrightarrow> Some v \<in> State ` set (rows df)"
  by (simp add: valid_states_def member_dropna)

lemma resolved_codes_map:
  "resolved_codes full_names (map State xs)
     = map (\<lambda>x. if full_names then map_option (dict_get state_name_to_code) (State x)
                 else State x) xs"
  by (simp add: resolved_codes_def)

text \<open>
  The retention condition of a row is that its State cell is not blank: a value of the
  column is in the allow-list, and a blank cell resolves to a blank code.
\<close>

lemma retention_mask_rows:
  "retention_mask (valid_states df) (resolved_codes full_names (map State (rows df)))
     (map State (rows df))
   = map (\<lambda>x. State x \<noteq> None) (rows df)"
proof -
  have "isin (if full_names then map_option (dict_get state_name_to_code) (State x) else State x)
          (valid_states df) \<or> isin (State x) (valid_states df) \<longleftrightarrow> State x \<noteq> None"
    if "x \<in> set (rows df)" for x
  proof (cases "State x")
    case None
    then show ?thesis
      by (simp add: isin_def)
  next
    case (Some v)
    with that have "isin (State x) (valid_states df)"
      by (simp add: isin_def member_valid_states rev_image_eqI)
    with Some show ?thesis
      by simp
  qed
  then show ?thesis
    unfolding retention_mask_def resolved_codes_map
    by (simp add: zip_map1 zip_map2 zip_same_conv_map)
qed

lemma standardize_empty:
  "rows df = [] \<Longrightarrow>
   standardize_state_codes df =
     Inr \<lparr>header = header df, rows = [],
          StateCode = None, StateName = None, MappedRegion = None\<rparr>"
  by (simp add: standardize_state_codes_def)

lemma standardize_blank_first:
  "rows df = x # xs \<Longrightarrow> State x = None \<Longrightarrow> standardize_state_codes df = Inl TypeError"
  by (simp add: standardize_state_codes_def)

lemma standardize_nonempty:
  assumes "rows df = x # xs" and "State x = Some v"
  shows "standardize_state_codes df =
     Inr \<lparr>header = header df,
          rows = filter (\<lambda>x. State x \<noteq> None) (rows df),
          StateCode = Some (resolved_codes (2 < length v)
                             (map State (filter (\<lambda>x. State x \<noteq> None) (rows df)))),
          StateName = resolved_names (2 < length v)
                        (map State (filter (\<lambda>x. State x \<noteq> None) (rows df))),
          MappedRegion = Some (map region_of_cell (resolved_codes (2 < length v)
                             (map State (filter (\<lambda>x. State x \<noteq> None) (rows df)))))\<rparr>"
proof -
  let ?keep = "map (\<lambda>x. State x \<noteq> None) (rows df)"
  have codes: "boolean_index ?keep (resolved_codes b (map State (rows df)))
      = resolved_codes b (map State (filter (\<lambda>x. State x \<noteq> None) (rows df)))" for b
    unfolding resolved_codes_map by (rule boolean_index_map)
  have names: "map_option (boolean_index ?keep) (resolved_names b (map State (rows df)))
      = resolved_names b (map State (filter (\<lambda>x. State x \<noteq> None) (rows df)))" for b
    by (simp add: resolved_names_def boolean_index_map)
  from assms have "standardize_state_codes df =
     Inr \<lparr>header = header df,
          rows = boolean_index
                   (retention_mask (valid_states df)
                      (resolved_codes (2 < length v) (map State (rows df)))
                      (map State (rows df)))
                   (rows df),
          StateCode = Some (boolean_index
                   (retention_mask (valid_states df)
                      (resolved_codes (2 < length v) (map State (rows df)))
                      (map State (rows df)))
                   (resolved_codes (2 < length v) (map State (rows df)))),
          StateName = map_option (boolean_index
                   (retention_mask (valid_states df)
                      (resolved_codes (2 < length v) (map State (rows df)))
                      (map State (rows df))))
                   (resolved_names (2 < length v) (map State (rows df))),
          MappedRegion = Some (map region_of_cell (boolean_index
                   (retention_mask (valid_states df)
                      (resolved_codes (2 < length v) (map State (rows df)))
                      (map State (rows df)))
                   (resolved_codes (2 < length v) (map State (rows df)))))\<rparr>"
    by (simp add: standardize_state_codes_def Let_def)
  then show ?thesis
    by (simp only: retention_mask_rows boolean_index_rows codes names)
qed

lemma standardize_cases:
  assumes "standardize_state_codes df = Inr f"
  obtains "rows df = []" "StateCode f = None" "MappedRegion f = None"
  | x xs v where "rows df = x # xs" "State x = Some v"
proof (cases "rows df")
  case Nil
  with assms that(1) show ?thesis
    by (auto simp: standardize_empty)
next
  case (Cons x xs)
  with assms obtain v where "State x = Some v"
    by (cases "State x") (auto simp: standardize_blank_first)
  with Cons that(2) show ?thesis
    by blast
qed


lemma region_of_cell_member:
  "region_of_cell c \<noteq> ''Unknown'' \<Longrightarrow>
   \<exists>v. c = Some v \<and> v \<in> set (region_members (region_of_cell c))"
  by (cases c) (auto simp: region_of_cell_def dest: get_region_member)

lemma standardize_sample:
  "standardize_state_codes sample_df =
     Inr \<lparr>header = expected_columns,
          rows = rows sample_df,
          StateCode = Some [Some ''NY'', Some ''CA'', Some ''TX'', Some ''FL'', Some ''IL''],
          StateName = Some [Some ''New York'', Some ''California'', Some ''Texas'',
                            Some ''Florida'', Some ''Illinois''],
          MappedRegion = Some [''Northeast'', ''West'', ''South'', ''South'', ''Midwest'']\<rparr>"
proof -
  have r: "rows sample_df = hd (rows sample_df) # tl (rows sample_df)"
    and s: "State (hd (rows sample_df)) = Some ''NY''"
    by (simp_all add: sample_df_def entry_def)
  have k: "filter (\<lambda>x. State x \<noteq> None) (rows sample_df) = rows sample_df"
    by (simp add: sample_df_def entry_def)
  have st: "map State (rows sample_df)
      = [Some ''NY'', Some ''CA'', Some ''TX'', Some ''FL'', Some ''IL'']"
    by (simp add: sample_df_def entry_def)
  show ?thesis
    unfolding standardize_nonempty [OF r s] k st
    by (simp add: resolved_codes_def resolved_names_def dict_get_def state_code_to_name_def
        region_of_cell_def get_region_def region_mapping_def sample_df_def)
qed

text \<open>
  C9. For every row the normalizer produces, if its resolved region is not \<open>Unknown\<close> then
  its resolved state code is a member of that region's list in \<open>region_mapping\<close>.
\<close>

theorem resolved_region_consistent:
  assumes "standardize_state_codes df = Inr f"
    and "StateCode f = Some codes"
    and "MappedRegion f = Some regions"
    and "i < length regions"
    and "regions ! i \<noteq> ''Unknown''"
  shows "i < length codes \<and>
    (\<exists>state_code. codes ! i = Some state_code \<and>
       state_code \<in> set (region_members (regions ! i)))"
proof -
  obtain x xs v where ne: "rows df = x # xs" "State x = Some v"
  proof (rule standardize_cases [OF assms(1)])
    assume "rows df = []" and "StateCode f = None" and "MappedRegion f = None"
    with assms(2) show thesis
      by simp
  next
    fix x xs v
    assume "rows df = x # xs" and "State x = Some v"
    then show thesis
      by (rule that)
  qed
  from assms(1,2,3) have r: "regions = map region_of_cell codes"
    unfolding standardize_nonempty [OF ne] by auto
  from assms(4) r have i: "i < length codes"
    by simp
  with assms(5) r have "region_of_cell (codes ! i) \<noteq> ''Unknown''"
    by simp
  then have "\<exists>v. codes ! i = Some v \<and> v \<in> set (region_members (region_of_cell (codes ! i)))"
    by (rule region_of_cell_member)
  with i r show ?thesis
    by simp
qed

theorem resolved_region_consistent_witness:
  "standardize_state_codes sample_df =
     Inr \<lparr>header = expected_columns,
          rows = rows sample_df,
          StateCode = Some [Some ''NY'', Some ''CA'', Some ''TX'', Some ''FL'', Some ''IL''],
          StateName = Some [Some ''New York'', Some ''California'', Some ''Texas'',
                            Some ''Florida'', Some ''Illinois''],
          MappedRegion = Some [''Northeast'', ''West'', ''South'', ''South'', ''Midwest'']\<rparr> \<and>
   (2::nat) < length [''Northeast'', ''West'', ''South'', ''South'', ''Midwest''] \<and>
   [''Northeast'', ''West'', ''South'', ''South'', ''Midwest''] ! 2 \<noteq> ''Unknown'' \<and>
   [Some ''NY'', Some ''CA'', Some ''TX'', Some ''FL'', Some ''IL''] ! 2 = Some ''TX'' \<and>
   ''TX'' \<in> set (region_members ''South'')"
proof -
  have i: "(2::nat) < length [''Northeast'', ''West'', ''South'', ''South'', ''Midwest'']"
    by simp
  have u: "[''Northeast'', ''West'', ''South'', ''South'', ''Midwest''] ! 2 \<noteq> ''Unknown''"
    by simp
  show ?thesis
    using standardize_sample i u
      resolved_region_consistent [OF standardize_sample _ _ i u,
        of "[Some ''NY'', Some ''CA'', Some ''TX'', Some ''FL'', Some ''IL'']"]
    by simp
qed









section \<open>Properties of the exports and the aggregates\<close>

lemma filtered_df_rows:
  "selected_specialty \<noteq> [] \<Longrightarrow>
   filtered_df df selected_specialty selected_region =
     Inr (df\<lparr>rows := filter (\<lambda>x. Speciality x = Some selected_specialty \<and>
                                  (truthy selected_region \<longrightarrow> Region x = selected_region))
                          (rows df)\<rparr>)"
  by (simp add: filtered_df_def Let_def conj_commute)

lemma filtered_df_stopped: "filtered_df df [] selected_region = Inl Stopped"
  by (simp add: filtered_df_def)

lemma truthy_chosen_region:
  "truthy (chosen_region region_choice) \<longleftrightarrow> region_choice \<noteq> ''All Regions'' \<and> region_choice \<noteq> []"
  by (simp add: truthy_def chosen_region_def)

lemma aggregation_of_no_rows:
  "rows df = [] \<Longrightarrow> standardize_state_codes df = Inr f \<Longrightarrow>
   aggregation_stage sort_values f selected_region = Inl (KeyError ''StateCode'')"
  by (auto simp: aggregation_stage_def state_counts_def standardize_empty)

text \<open>What a render returns, when the selectors and the filter let it through.\<close>

lemma dashboard_render:
  assumes "dashboard sort_values df selected_specialty region_choice = Inr (csv, xlsx, result)"
  shows "selected_specialty \<noteq> []"
    and "csv = sheet_content
           (df\<lparr>rows := filter (\<lambda>x. Speciality x = Some selected_specialty \<and>
                                  (truthy (chosen_region region_choice) \<longrightarrow>
                                     Region x = chosen_region region_choice))
                          (rows df)\<rparr>)"
    and "xlsx = csv"
    and "result = Inr aggs \<Longrightarrow>
         \<exists>processed.
           standardize_state_codes
             (df\<lparr>rows := filter (\<lambda>x. Speciality x = Some selected_specialty \<and>
                                  (truthy (chosen_region region_choice) \<longrightarrow>
                                     Region x = chosen_region region_choice))
                          (rows df)\<rparr>) = Inr processed \<and>
           aggregation_stage sort_values processed (chosen_region region_choice) = Inr aggs"
proof -
  show s: "selected_specialty \<noteq> []"
    using assms
    by (auto simp: dashboard_def filtered_df_stopped split: sum.splits)
  let ?filtered = "df\<lparr>rows := filter (\<lambda>x. Speciality x = Some selected_specialty \<and>
                                  (truthy (chosen_region region_choice) \<longrightarrow>
                                     Region x = chosen_region region_choice))
                          (rows df)\<rparr>"
  have f: "filtered_df df selected_specialty (chosen_region region_choice) = Inr ?filtered"
    by (rule filtered_df_rows [OF s])
  from assms show "csv = sheet_content ?filtered" and "xlsx = csv"
    by (auto simp: dashboard_def f csv_data_def excel_data_def split: sum.splits)
  assume "result = Inr aggs"
  with assms show "\<exists>processed. standardize_state_codes ?filtered = Inr processed \<and>
           aggregation_stage sort_values processed (chosen_region region_choice) = Inr aggs"
    by (auto simp: dashboard_def f split: sum.splits)
qed

text \<open>A render of a sheet with the columns and the cells the selectors accept.\<close>

lemma dashboard_of_sheet:
  assumes "set [''Speciality'', ''Region'', ''State'', ''Usage Time (mins)''] \<subseteq> set (header df)"
    and "selector_options (map Speciality (rows df)) = Inr specialties"
    and "selector_options (map Region (rows df)) = Inr regions"
    and "filtered_df df selected_specialty (chosen_region region_choice) = Inr filtered"
    and "header filtered = header df"
  shows "dashboard sort_values df selected_specialty region_choice =
     Inr (csv_data filtered, excel_data filtered,
          (case standardize_state_codes filtered of
             Inl e \<Rightarrow> Inl e
           | Inr processed \<Rightarrow>
               aggregation_stage sort_values processed (chosen_region region_choice)))"
  using assms by (simp add: dashboard_def read_column_def)

lemma selector_options_sample:
  "selector_options (map Speciality (rows sample_df))
     = Inr [Some ''Cardiology'', Some ''Neurology'', Some ''Oncology'', Some ''Pediatrics'']"
  "selector_options (map Region (rows sample_df))
     = Inr [Some ''Midwest'', Some ''Northeast'', Some ''South'', Some ''West'']"
  by (simp_all add: selector_options_def dropna_def sample_df_def entry_def)

lemma header_sample:
  "set [''Speciality'', ''Region'', ''State'', ''Usage Time (mins)''] \<subseteq> set (header sample_df)"
  by (simp add: sample_df_def expected_columns_def)

lemma filtered_sample:
  "filtered_df sample_df ''Dermatology'' (chosen_region ''All Regions'')
     = Inr \<lparr>header = expected_columns, rows = []\<rparr>"
  "filtered_df sample_df ''Cardiology'' (chosen_region ''West'')
     = Inr \<lparr>header = expected_columns, rows = []\<rparr>"
  "filtered_df sample_df ''Cardiology'' (chosen_region ''All Regions'') = Inr cardiology_df"
  by (simp_all add: filtered_df_def truthy_def chosen_region_def sample_df_def entry_def
      cardiology_df_def)

lemma no_rows:
  "csv_data \<lparr>header = expected_columns, rows = []\<rparr>
     = ([''NPI'', ''Speciality'', ''State'', ''Region'', ''Usage Time (mins)''], [])"
  "excel_data \<lparr>header = expected_columns, rows = []\<rparr>
     = ([''NPI'', ''Speciality'', ''State'', ''Region'', ''Usage Time (mins)''], [])"
  "(case standardize_state_codes \<lparr>header = expected_columns, rows = []\<rparr> of
      Inl e \<Rightarrow> Inl e
    | Inr processed \<Rightarrow> aggregation_stage sort_values processed selected_region)
   = Inl (KeyError ''StateCode'')"
  by (simp_all add: csv_data_def excel_data_def sheet_content_def expected_columns_def
      standardize_empty aggregation_stage_def state_counts_def)

text \<open>
  C1. The claim: when the filter leaves no row, the aggregation stage produces zero-row
  outputs and raises no error. On a frame with no row the normalizer skips the branch that
  adds the columns (the guard of line 185), and the first aggregate, \<open>groupby('StateCode')\<close>
  of line 217, raises \<open>KeyError\<close>. Below: the sample with a specialty no row has, and the
  sample with specialty Cardiology and region West, both of which the selectors offer.
\<close>

theorem empty_filter_result_raises:
  "filtered_df sample_df ''Dermatology'' (chosen_region ''All Regions'')
     = Inr \<lparr>header = expected_columns, rows = []\<rparr> \<and>
   dashboard sort_values sample_df ''Dermatology'' ''All Regions''
     = Inr (([''NPI'', ''Speciality'', ''State'', ''Region'', ''Usage Time (mins)''], []),
            ([''NPI'', ''Speciality'', ''State'', ''Region'', ''Usage Time (mins)''], []),
            Inl (KeyError ''StateCode'')) \<and>
   filtered_df sample_df ''Cardiology'' (chosen_region ''West'')
     = Inr \<lparr>header = expected_columns, rows = []\<rparr> \<and>
   dashboard sort_values sample_df ''Cardiology'' ''West''
     = Inr (([''NPI'', ''Speciality'', ''State'', ''Region'', ''Usage Time (mins)''], []),
            ([''NPI'', ''Speciality'', ''State'', ''Region'', ''Usage Time (mins)''], []),
            Inl (KeyError ''StateCode''))"
proof -
  have h: "header \<lparr>header = expected_columns, rows = []\<rparr> = header sample_df"
    by (simp add: sample_df_def)
  show ?thesis
    using dashboard_of_sheet [OF header_sample selector_options_sample filtered_sample(1) h]
      dashboard_of_sheet [OF header_sample selector_options_sample filtered_sample(2) h]
    by (simp add: filtered_sample no_rows)
qed

lemma region_filter_iff:
  "(truthy (chosen_region region_choice) \<longrightarrow> Region x = chosen_region region_choice) \<longleftrightarrow>
   (region_choice \<noteq> ''All Regions'' \<and> region_choice \<noteq> [] \<longrightarrow> Region x = Some region_choice)"
  by (simp add: truthy_def chosen_region_def)





subsection \<open>Grouping\<close>

lemma dropna_map_Some [simp]: "dropna (map Some xs) = xs"
  by (induction xs) (simp_all add: dropna_def)

lemma set_group_keys [simp]: "set (group_keys col) = set (dropna col)"
  by (simp add: group_keys_def)

lemma distinct_group_keys [simp]: "distinct (group_keys col)"
  by (simp add: group_keys_def)

lemma sorted_group_keys [simp]: "sorted (group_keys col)"
  by (simp add: group_keys_def)

lemma count_list_map_Some [simp]: "count_list (map Some xs) (Some k) = count_list xs k"
  by (induction xs) simp_all

lemma count_list_map_filter:
  "count_list (map g xs) k = length (filter (\<lambda>x. g x = k) xs)"
  by (induction xs) simp_all

text \<open>The size of a group is the number of rows with its key.\<close>

lemma groupby_size_map:
  "groupby_size (map Some (map g xs))
     = map (\<lambda>k. (k, length (filter (\<lambda>x. g x = k) xs))) (sort (remdups (map g xs)))"
  by (simp add: groupby_size_def group_keys_def count_list_map_filter comp_def del: map_map)

text \<open>The values of a group are those of the rows with its key, in row order.\<close>

lemma group_values_map:
  "map snd (filter (\<lambda>(k', v). k' = Some k) (zip (map Some (map g xs)) (map u xs)))
     = map u (filter (\<lambda>x. g x = k) xs)"
  by (induction xs) simp_all

lemma groupby_values_map:
  "groupby_values (map Some (map g xs)) (map u xs)
     = map (\<lambda>k. (k, map u (filter (\<lambda>x. g x = k) xs))) (sort (remdups (map g xs)))"
  by (simp add: groupby_values_def group_keys_def group_values_map del: map_map)

text \<open>The sizes of the groups add up to the number of rows.\<close>

lemma sum_group_sizes:
  "sum_list (map (\<lambda>k. length (filter (\<lambda>x. g x = k) xs)) (sort (remdups (map g xs)))) = length xs"
proof -
  have c: "(\<lambda>k. length (filter (\<lambda>x. g x = k) xs)) = count_list (map g xs)"
    by (rule ext) (simp add: count_list_map_filter)
  have "sum_list (map (count_list (map g xs)) (sort (remdups (map g xs))))
      = sum (count_list (map g xs)) (set (map g xs))"
    by (subst sum_list_distinct_conv_sum_set) simp_all
  also have "\<dots> = length (map g xs)"
    by (rule sum_count_set) simp_all
  finally show ?thesis
    unfolding c by simp
qed

lemma region_counts_map:
  assumes "MappedRegion f = Some (map g xs)"
  shows "region_counts f =
    Inr (map (\<lambda>r. (r, length (filter (\<lambda>x. g x = r) xs),
                    Round1 (Percent (length (filter (\<lambda>x. g x = r) xs)) (length xs))))
          (sort (remdups (map g xs))))"
proof -
  have "sum_list (map snd (groupby_size (map Some (map g xs)))) = length xs"
    unfolding groupby_size_map using sum_group_sizes [of g xs] by (simp add: comp_def)
  then show ?thesis
    unfolding region_counts_def assms option.case Let_def groupby_size_map
    by (simp add: comp_def)
qed

lemma usage_by_region_map:
  assumes "MappedRegion f = Some (map g (rows f))"
  shows "usage_by_region f =
    Inr (map (\<lambda>r. (r, Round1 (Mean (map Usage_Time (filter (\<lambda>x. g x = r) (rows f))))))
          (sort (remdups (map g (rows f)))))"
  unfolding usage_by_region_def assms option.case groupby_values_map
  by (simp add: comp_def)

lemma aggregation_stage_Inr:
  assumes "aggregation_stage sort_values f selected_region = Inr aggs"
  shows "state_counts f selected_region = Inr (agg_state_counts aggs)"
    and "regional_distribution f selected_region = Inr (agg_distribution aggs)"
    and "usage_analysis f selected_region = Inr (agg_usage aggs)"
    and "top_states sort_values f = Inr (agg_top_states aggs)"
    and "agg_stats aggs = stats_df f"
  using assms by (auto simp: aggregation_stage_def split: sum.splits)

lemma state_counts_needs_codes:
  "state_counts f selected_region = Inr t \<Longrightarrow> StateCode f \<noteq> None"
  by (auto simp: state_counts_def split: option.splits)

text \<open>The normalized table of a render that got as far as its aggregates.\<close>

lemma processed_of_aggregates:
  assumes "standardize_state_codes df = Inr f"
    and "aggregation_stage sort_values f selected_region = Inr aggs"
  obtains x xs v where "rows df = x # xs" and "State x = Some v"
    and "rows f = filter (\<lambda>x. State x \<noteq> None) (rows df)"
    and "StateCode f =
           Some (map (\<lambda>x. if 2 < length v
                            then map_option (dict_get state_name_to_code) (State x) else State x)
                   (filter (\<lambda>x. State x \<noteq> None) (rows df)))"
    and "MappedRegion f =
           Some (map (\<lambda>x. region_of_cell
                             (if 2 < length v
                              then map_option (dict_get state_name_to_code) (State x)
                              else State x))
                   (filter (\<lambda>x. State x \<noteq> None) (rows df)))"
proof -
  from aggregation_stage_Inr(1) [OF assms(2)] have codes: "StateCode f \<noteq> None"
    by (rule state_counts_needs_codes)
  obtain x xs v where ne: "rows df = x # xs" "State x = Some v"
  proof (rule standardize_cases [OF assms(1)])
    assume "rows df = []" and "StateCode f = None" and "MappedRegion f = None"
    with codes show thesis
      by simp
  next
    fix x xs v
    assume "rows df = x # xs" and "State x = Some v"
    then show thesis
      by (rule that)
  qed
  from assms(1) have f: "f = \<lparr>header = header df,
          rows = filter (\<lambda>x. State x \<noteq> None) (rows df),
          StateCode = Some (resolved_codes (2 < length v)
                             (map State (filter (\<lambda>x. State x \<noteq> None) (rows df)))),
          StateName = resolved_names (2 < length v)
                        (map State (filter (\<lambda>x. State x \<noteq> None) (rows df))),
          MappedRegion = Some (map region_of_cell (resolved_codes (2 < length v)
                             (map State (filter (\<lambda>x. State x \<noteq> None) (rows df)))))\<rparr>"
    unfolding standardize_nonempty [OF ne] by simp
  show thesis
  proof (rule that [OF ne])
    show "rows f = filter (\<lambda>x. State x \<noteq> None) (rows df)"
      by (subst f) simp
    show "StateCode f =
           Some (map (\<lambda>x. if 2 < length v
                            then map_option (dict_get state_name_to_code) (State x) else State x)
                   (filter (\<lambda>x. State x \<noteq> None) (rows df)))"
      by (subst f) (simp add: resolved_codes_map)
    show "MappedRegion f =
           Some (map (\<lambda>x. region_of_cell
                             (if 2 < length v
                              then map_option (dict_get state_name_to_code) (State x)
                              else State x))
                   (filter (\<lambda>x. State x \<noteq> None) (rows df)))"
      by (subst f) (simp add: resolved_codes_map comp_def)
  qed
qed

text \<open>
  C8. For every uploaded table, chosen specialty and chosen region, the filter stage keeps
  the rows whose raw Region value equals the chosen region (and whose specialty equals the
  chosen specialty): the exports of the render hold exactly those rows. The regional
  distribution and the regional mean usage, which a render shows when no region is chosen
  (with a chosen region it shows the tables by state), are grouped by the region resolved
  from the state code: their keys are the resolved regions of the rows of the normalized
  table, in ascending order, the count of a key is the number of rows that resolve to it,
  and its mean is taken over the usage times of those rows. The raw Region column has no
  part in them.
\<close>

theorem filter_by_raw_region_charts_by_resolved_region:
  assumes "dashboard sort_values df selected_specialty region_choice = Inr (csv, xlsx, result)"
  shows
    "(region_choice \<noteq> ''All Regions'' \<and> region_choice \<noteq> [] \<longrightarrow>
        snd csv =
          map (\<lambda>x. map (cell_at x) (header df))
            (filter (\<lambda>x. Speciality x = Some selected_specialty \<and> Region x = Some region_choice)
               (rows df)) \<and>
        (\<forall>aggs. result = Inr aggs \<longrightarrow>
           (\<exists>states_table usage_table.
              agg_distribution aggs = By_State states_table \<and>
              agg_usage aggs = Usage_By_State usage_table))) \<and>
     (\<forall>aggs. region_choice = ''All Regions'' \<and> result = Inr aggs \<longrightarrow>
        (let filtered = filter (\<lambda>x. Speciality x = Some selected_specialty) (rows df);
             full_names = (case filtered of [] \<Rightarrow> False
                           | x # _ \<Rightarrow> (case State x of None \<Rightarrow> False | Some v \<Rightarrow> 2 < length v));
             resolved = (\<lambda>x. region_of_cell
                               (if full_names
                                then map_option (dict_get state_name_to_code) (State x)
                                else State x));
             kept = filter (\<lambda>x. State x \<noteq> None) filtered
         in agg_distribution aggs =
              By_Region
                (map (\<lambda>r. (r, length (filter (\<lambda>x. resolved x = r) kept),
                            Round1 (Percent (length (filter (\<lambda>x. resolved x = r) kept))
                                      (length kept))))
                   (sort (remdups (map resolved kept)))) \<and>
            agg_usage aggs =
              Usage_By_Region
                (map (\<lambda>r. (r, Round1 (Mean (map Usage_Time (filter (\<lambda>x. resolved x = r) kept)))))
                   (sort (remdups (map resolved kept))))))"
proof (intro conjI impI allI)
  assume "region_choice \<noteq> ''All Regions'' \<and> region_choice \<noteq> []"
  then show "snd csv =
          map (\<lambda>x. map (cell_at x) (header df))
            (filter (\<lambda>x. Speciality x = Some selected_specialty \<and> Region x = Some region_choice)
               (rows df))"
    using dashboard_render(2) [OF assms]
    by (simp add: sheet_content_def region_filter_iff)
next
  fix aggs
  assume c: "region_choice \<noteq> ''All Regions'' \<and> region_choice \<noteq> []" and r: "result = Inr aggs"
  from dashboard_render(4) [OF assms r] obtain processed
    where a: "aggregation_stage sort_values processed (chosen_region region_choice) = Inr aggs"
    by blast
  from c have "chosen_region region_choice \<noteq> None"
    by (simp add: chosen_region_def)
  with aggregation_stage_Inr(2,3) [OF a]
  show "\<exists>states_table usage_table.
          agg_distribution aggs = By_State states_table \<and>
          agg_usage aggs = Usage_By_State usage_table"
    by (auto simp: regional_distribution_def usage_analysis_def map_sum_def split: sum.splits)
      metis+
next
  fix aggs
  assume "region_choice = ''All Regions'' \<and> result = Inr aggs"
  then have c: "chosen_region region_choice = None" and r: "result = Inr aggs"
    by (simp_all add: chosen_region_def)
  define filtered where "filtered = filter (\<lambda>x. Speciality x = Some selected_specialty) (rows df)"
  from dashboard_render(4) [OF assms r] obtain processed
    where p: "standardize_state_codes (df\<lparr>rows := filtered\<rparr>) = Inr processed"
      and a: "aggregation_stage sort_values processed None = Inr aggs"
    by (auto simp: c truthy_def filtered_def)
  from p a obtain x xs v where ne: "filtered = x # xs" "State x = Some v"
    and rows: "rows processed = filter (\<lambda>x. State x \<noteq> None) filtered"
    and regions: "MappedRegion processed =
           Some (map (\<lambda>x. region_of_cell
                             (if 2 < length v
                              then map_option (dict_get state_name_to_code) (State x)
                              else State x))
                   (filter (\<lambda>x. State x \<noteq> None) filtered))"
    by (rule processed_of_aggregates) simp_all
  define resolved :: "provider \<Rightarrow> string" where "resolved = (\<lambda>x. region_of_cell
                             (if 2 < length v
                              then map_option (dict_get state_name_to_code) (State x)
                              else State x))"
  define kept where "kept = filter (\<lambda>x. State x \<noteq> None) filtered"
  from regions have m: "MappedRegion processed = Some (map resolved kept)"
    by (simp add: resolved_def kept_def)
  from rows have k: "rows processed = kept"
    by (simp add: kept_def)
  from aggregation_stage_Inr(2) [OF a] have d: "agg_distribution aggs =
      By_Region
        (map (\<lambda>r. (r, length (filter (\<lambda>x. resolved x = r) kept),
                    Round1 (Percent (length (filter (\<lambda>x. resolved x = r) kept)) (length kept))))
           (sort (remdups (map resolved kept))))"
    by (simp add: regional_distribution_def region_counts_map [OF m])
  from m k have m': "MappedRegion processed = Some (map resolved (rows processed))"
    by simp
  from aggregation_stage_Inr(3) [OF a] have u: "agg_usage aggs =
      Usage_By_Region
        (map (\<lambda>r. (r, Round1 (Mean (map Usage_Time (filter (\<lambda>x. resolved x = r) kept)))))
           (sort (remdups (map resolved kept))))"
    by (simp add: usage_analysis_def usage_by_region_map [OF m'] k)
  have form: "(case filtered of [] \<Rightarrow> False
               | x # _ \<Rightarrow> (case State x of None \<Rightarrow> False | Some v \<Rightarrow> 2 < length v))
              = (2 < length v)"
    by (simp add: ne)
  show "let filtered = filter (\<lambda>x. Speciality x = Some selected_specialty) (rows df);
             full_names = (case filtered of [] \<Rightarrow> False
                           | x # _ \<Rightarrow> (case State x of None \<Rightarrow> False | Some v \<Rightarrow> 2 < length v));
             resolved = (\<lambda>x. region_of_cell
                               (if full_names
                                then map_option (dict_get state_name_to_code) (State x)
                                else State x));
             kept = filter (\<lambda>x. State x \<noteq> None) filtered
         in agg_distribution aggs =
              By_Region
                (map (\<lambda>r. (r, length (filter (\<lambda>x. resolved x = r) kept),
                            Round1 (Percent (length (filter (\<lambda>x. resolved x = r) kept))
                                      (length kept))))
                   (sort (remdups (map resolved kept)))) \<and>
            agg_usage aggs =
              Usage_By_Region
                (map (\<lambda>r. (r, Round1 (Mean (map Usage_Time (filter (\<lambda>x. resolved x = r) kept)))))
                   (sort (remdups (map resolved kept))))"
    unfolding Let_def filtered_def [symmetric] form
    using d u by (simp add: resolved_def kept_def)
qed

lemma sort_values_desc_perm: "mset (sort_values_desc key xs) = mset xs"
  by (simp add: sort_values_desc_def)

lemma sort_values_desc_sorted:
  "sorted_wrt (\<lambda>a b. key b \<le> key a) (sort_values_desc key xs)"
proof -
  have "sorted (map key (sort_key key (rev xs)))"
    by (rule sorted_sort_key)
  then have "sorted_wrt (\<lambda>a b. key a \<le> key b) (sort_key key (rev xs))"
    by (simp add: sorted_map)
  then show ?thesis
    by (simp add: sort_values_desc_def sorted_wrt_rev)
qed

text \<open>\<open>sort_values_desc\<close> leaves rows of equal key in the order they had.\<close>

lemma sort_values_desc_stable:
  "filter (\<lambda>x. key x = k) (sort_values_desc key xs) = filter (\<lambda>x. key x = k) xs"
  by (simp add: sort_values_desc_def rev_filter [symmetric] sort_key_stable)

text \<open>
  Two renders of a sheet whose Region column disagrees with its states: New York and
  Pennsylvania are labelled West, the two rows of California South and Northeast.
\<close>

lemma render_mislabelled_west:
  "dashboard (sort_values_desc Count) mislabelled_df ''Cardiology'' ''West'' =
     Inr (([''NPI'', ''Speciality'', ''State'', ''Region'', ''Usage Time (mins)''],
           [[Text ''1234567890'', Text ''Cardiology'', Text ''NY'', Text ''West'',
             Number (Float 45.2)],
            [Text ''3456789012'', Text ''Cardiology'', Text ''PA'', Text ''West'',
             Number (Float 30.5)]]),
          ([''NPI'', ''Speciality'', ''State'', ''Region'', ''Usage Time (mins)''],
           [[Text ''1234567890'', Text ''Cardiology'', Text ''NY'', Text ''West'',
             Number (Float 45.2)],
            [Text ''3456789012'', Text ''Cardiology'', Text ''PA'', Text ''West'',
             Number (Float 30.5)]]),
          Inr \<lparr>agg_state_counts = [],
               agg_distribution =
                 By_State [(''NY'', 1, ''New York''), (''PA'', 1, ''Pennsylvania'')],
               agg_usage =
                 Usage_By_State
                   [(''NY'', Round1 (Mean [Float 45.2]), ''New York''),
                    (''PA'', Round1 (Mean [Float 30.5]), ''Pennsylvania'')],
               agg_top_states =
                 [(''NY'', ''NY'', 1, ''New York''), (''PA'', ''PA'', 1, ''Pennsylvania'')],
               agg_stats =
                 [(''Mean'', Fmt2 (Mean [Float 45.2, Float 30.5])),
                  (''Median'', Fmt2 (Median [Float 45.2, Float 30.5])),
                  (''Minimum'', Fmt2 (Minimum [Float 45.2, Float 30.5])),
                  (''Maximum'', Fmt2 (Maximum [Float 45.2, Float 30.5])),
                  (''Standard Deviation'', Fmt2 (Std [Float 45.2, Float 30.5]))]\<rparr>)"
  by (simp add: dashboard_def read_column_def selector_options_def dropna_def filtered_df_def
      truthy_def chosen_region_def mislabelled_df_def entry_def expected_columns_def
      csv_data_def excel_data_def sheet_content_def cell_at_def text_cell_def
      standardize_state_codes_def valid_states_def resolved_codes_def resolved_names_def
      retention_mask_def isin_def boolean_index_def region_of_cell_def get_region_def
      region_mapping_def dict_get_def state_code_to_name_def aggregation_stage_def
      state_counts_def region_members_def groupby_size_def group_keys_def
      regional_distribution_def region_states_def region_counts_def usage_analysis_def
      usage_by_state_def usage_by_region_def groupby_values_def top_states_def key_pair_def
      sort_values_desc_def Count_def stats_df_def Let_def)

lemma render_mislabelled_all_regions:
  "dashboard (sort_values_desc Count) mislabelled_df ''Cardiology'' ''All Regions'' =
     Inr (([''NPI'', ''Speciality'', ''State'', ''Region'', ''Usage Time (mins)''],
           [[Text ''1234567890'', Text ''Cardiology'', Text ''NY'', Text ''West'',
             Number (Float 45.2)],
            [Text ''2345678901'', Text ''Cardiology'', Text ''CA'', Text ''South'',
             Number (Float 41.5)],
            [Text ''3456789012'', Text ''Cardiology'', Text ''PA'', Text ''West'',
             Number (Float 30.5)],
            [Text ''4567890123'', Text ''Cardiology'', Text ''CA'', Text ''Northeast'',
             Number (Float 20)]]),
          ([''NPI'', ''Speciality'', ''State'', ''Region'', ''Usage Time (mins)''],
           [[Text ''1234567890'', Text ''Cardiology'', Text ''NY'', Text ''West'',
             Number (Float 45.2)],
            [Text ''2345678901'', Text ''Cardiology'', Text ''CA'', Text ''South'',
             Number (Float 41.5)],
            [Text ''3456789012'', Text ''Cardiology'', Text ''PA'', Text ''West'',
             Number (Float 30.5)],
            [Text ''4567890123'', Text ''Cardiology'', Text ''CA'', Text ''Northeast'',
             Number (Float 20)]]),
          Inr \<lparr>agg_state_counts =
                 [(''CA'', 2, ''California'', ''West''), (''NY'', 1, ''New York'', ''Northeast''),
                  (''PA'', 1, ''Pennsylvania'', ''Northeast'')],
               agg_distribution =
                 By_Region [(''Northeast'', 2, Round1 (Percent 2 4)),
                            (''West'', 2, Round1 (Percent 2 4))],
               agg_usage =
                 Usage_By_Region
                   [(''Northeast'', Round1 (Mean [Float 45.2, Float 30.5])),
                    (''West'', Round1 (Mean [Float 41.5, Float 20]))],
               agg_top_states =
                 [(''CA'', ''CA'', 2, ''California''), (''NY'', ''NY'', 1, ''New York''),
                  (''PA'', ''PA'', 1, ''Pennsylvania'')],
               agg_stats =
                 [(''Mean'', Fmt2 (Mean [Float 45.2, Float 41.5, Float 30.5, Float 20])),
                  (''Median'', Fmt2 (Median [Float 45.2, Float 41.5, Float 30.5, Float 20])),
                  (''Minimum'', Fmt2 (Minimum [Float 45.2, Float 41.5, Float 30.5, Float 20])),
                  (''Maximum'', Fmt2 (Maximum [Float 45.2, Float 41.5, Float 30.5, Float 20])),
                  (''Standard Deviation'', Fmt2 (Std [Float 45.2, Float 41.5, Float 30.5, Float 20]))]\<rparr>)"
  by (simp add: dashboard_def read_column_def selector_options_def dropna_def filtered_df_def
      truthy_def chosen_region_def mislabelled_df_def entry_def expected_columns_def
      csv_data_def excel_data_def sheet_content_def cell_at_def text_cell_def
      standardize_state_codes_def valid_states_def resolved_codes_def resolved_names_def
      retention_mask_def isin_def boolean_index_def region_of_cell_def get_region_def
      region_mapping_def dict_get_def state_code_to_name_def aggregation_stage_def
      state_counts_def region_members_def groupby_size_def group_keys_def
      regional_distribution_def region_states_def region_counts_def usage_analysis_def
      usage_by_state_def usage_by_region_def groupby_values_def top_states_def key_pair_def
      sort_values_desc_def Count_def stats_df_def Let_def)

theorem filter_by_raw_region_charts_by_resolved_region_witness:
  "dashboard (sort_values_desc Count) mislabelled_df ''Cardiology'' ''West'' =
     Inr (([''NPI'', ''Speciality'', ''State'', ''Region'', ''Usage Time (mins)''],
           [[Text ''1234567890'', Text ''Cardiology'', Text ''NY'', Text ''West'',
             Number (Float 45.2)],
            [Text ''3456789012'', Text ''Cardiology'', Text ''PA'', Text ''West'',
             Number (Float 30.5)]]),
          ([''NPI'', ''Speciality'', ''State'', ''Region'', ''Usage Time (mins)''],
           [[Text ''1234567890'', Text ''Cardiology'', Text ''NY'', Text ''West'',
             Number (Float 45.2)],
            [Text ''3456789012'', Text ''Cardiology'', Text ''PA'', Text ''West'',
             Number (Float 30.5)]]),
          Inr \<lparr>agg_state_counts = [],
               agg_distribution =
                 By_State [(''NY'', 1, ''New York''), (''PA'', 1, ''Pennsylvania'')],
               agg_usage =
                 Usage_By_State
                   [(''NY'', Round1 (Mean [Float 45.2]), ''New York''),
                    (''PA'', Round1 (Mean [Float 30.5]), ''Pennsylvania'')],
               agg_top_states =
                 [(''NY'', ''NY'', 1, ''New York''), (''PA'', ''PA'', 1, ''Pennsylvania'')],
               agg_stats =
                 [(''Mean'', Fmt2 (Mean [Float 45.2, Float 30.5])),
                  (''Median'', Fmt2 (Median [Float 45.2, Float 30.5])),
                  (''Minimum'', Fmt2 (Minimum [Float 45.2, Float 30.5])),
                  (''Maximum'', Fmt2 (Maximum [Float 45.2, Float 30.5])),
                  (''Standard Deviation'', Fmt2 (Std [Float 45.2, Float 30.5]))]\<rparr>) \<and>
   snd ([''NPI'', ''Speciality'', ''State'', ''Region'', ''Usage Time (mins)''],
        [[Text ''1234567890'', Text ''Cardiology'', Text ''NY'', Text ''West'',
             Number (Float 45.2)],
            [Text ''3456789012'', Text ''Cardiology'', Text ''PA'', Text ''West'',
             Number (Float 30.5)]]) =
     [[Text ''1234567890'', Text ''Cardiology'', Text ''NY'', Text ''West'',
             Number (Float 45.2)],
            [Text ''3456789012'', Text ''Cardiology'', Text ''PA'', Text ''West'',
             Number (Float 30.5)]] \<and>
   (\<exists>states_table usage_table.
      agg_distribution
        \<lparr>agg_state_counts = [],
               agg_distribution =
                 By_State [(''NY'', 1, ''New York''), (''PA'', 1, ''Pennsylvania'')],
               agg_usage =
                 Usage_By_State
                   [(''NY'', Round1 (Mean [Float 45.2]), ''New York''),
                    (''PA'', Round1 (Mean [Float 30.5]), ''Pennsylvania'')],
               agg_top_states =
                 [(''NY'', ''NY'', 1, ''New York''), (''PA'', ''PA'', 1, ''Pennsylvania'')],
               agg_stats =
                 [(''Mean'', Fmt2 (Mean [Float 45.2, Float 30.5])),
                  (''Median'', Fmt2 (Median [Float 45.2, Float 30.5])),
                  (''Minimum'', Fmt2 (Minimum [Float 45.2, Float 30.5])),
                  (''Maximum'', Fmt2 (Maximum [Float 45.2, Float 30.5])),
                  (''Standard Deviation'', Fmt2 (Std [Float 45.2, Float 30.5]))]\<rparr> = By_State states_table \<and>
      agg_usage
        \<lparr>agg_state_counts = [],
               agg_distribution =
                 By_State [(''NY'', 1, ''New York''), (''PA'', 1, ''Pennsylvania'')],
               agg_usage =
                 Usage_By_State
                   [(''NY'', Round1 (Mean [Float 45.2]), ''New York''),
                    (''PA'', Round1 (Mean [Float 30.5]), ''Pennsylvania'')],
               agg_top_states =
                 [(''NY'', ''NY'', 1, ''New York''), (''PA'', ''PA'', 1, ''Pennsylvania'')],
               agg_stats =
                 [(''Mean'', Fmt2 (Mean [Float 45.2, Float 30.5])),
                  (''Median'', Fmt2 (Median [Float 45.2, Float 30.5])),
                  (''Minimum'', Fmt2 (Minimum [Float 45.2, Float 30.5])),
                  (''Maximum'', Fmt2 (Maximum [Float 45.2, Float 30.5])),
                  (''Standard Deviation'', Fmt2 (Std [Float 45.2, Float 30.5]))]\<rparr> = Usage_By_State usage_table) \<and>
   dashboard (sort_values_desc Count) mislabelled_df ''Cardiology'' ''All Regions'' =
     Inr (([''NPI'', ''Speciality'', ''State'', ''Region'', ''Usage Time (mins)''],
           [[Text ''1234567890'', Text ''Cardiology'', Text ''NY'', Text ''West'',
             Number (Float 45.2)],
            [Text ''2345678901'', Text ''Cardiology'', Text ''CA'', Text ''South'',
             Number (Float 41.5)],
            [Text ''3456789012'', Text ''Cardiology'', Text ''PA'', Text ''West'',
             Number (Float 30.5)],
            [Text ''4567890123'', Text ''Cardiology'', Text ''CA'', Text ''Northeast'',
             Number (Float 20)]]),
          ([''NPI'', ''Speciality'', ''State'', ''Region'', ''Usage Time (mins)''],
           [[Text ''1234567890'', Text ''Cardiology'', Text ''NY'', Text ''West'',
             Number (Float 45.2)],
            [Text ''2345678901'', Text ''Cardiology'', Text ''CA'', Text ''South'',
             Number (Float 41.5)],
            [Text ''3456789012'', Text ''Cardiology'', Text ''PA'', Text ''West'',
             Number (Float 30.5)],
            [Text ''4567890123'', Text ''Cardiology'', Text ''CA'', Text ''Northeast'',
             Number (Float 20)]]),
          Inr \<lparr>agg_state_counts =
                 [(''CA'', 2, ''California'', ''West''), (''NY'', 1, ''New York'', ''Northeast''),
                  (''PA'', 1, ''Pennsylvania'', ''Northeast'')],
               agg_distribution =
                 By_Region [(''Northeast'', 2, Round1 (Percent 2 4)),
                            (''West'', 2, Round1 (Percent 2 4))],
               agg_usage =
                 Usage_By_Region
                   [(''Northeast'', Round1 (Mean [Float 45.2, Float 30.5])),
                    (''West'', Round1 (Mean [Float 41.5, Float 20]))],
               agg_top_states =
                 [(''CA'', ''CA'', 2, ''California''), (''NY'', ''NY'', 1, ''New York''),
                  (''PA'', ''PA'', 1, ''Pennsylvania'')],
               agg_stats =
                 [(''Mean'', Fmt2 (Mean [Float 45.2, Float 41.5, Float 30.5, Float 20])),
                  (''Median'', Fmt2 (Median [Float 45.2, Float 41.5, Float 30.5, Float 20])),
                  (''Minimum'', Fmt2 (Minimum [Float 45.2, Float 41.5, Float 30.5, Float 20])),
                  (''Maximum'', Fmt2 (Maximum [Float 45.2, Float 41.5, Float 30.5, Float 20])),
                  (''Standard Deviation'', Fmt2 (Std [Float 45.2, Float 41.5, Float 30.5, Float 20]))]\<rparr>) \<and>
   agg_distribution
     \<lparr>agg_state_counts =
                 [(''CA'', 2, ''California'', ''West''), (''NY'', 1, ''New York'', ''Northeast''),
                  (''PA'', 1, ''Pennsylvania'', ''Northeast'')],
               agg_distribution =
                 By_Region [(''Northeast'', 2, Round1 (Percent 2 4)),
                            (''West'', 2, Round1 (Percent 2 4))],
               agg_usage =
                 Usage_By_Region
                   [(''Northeast'', Round1 (Mean [Float 45.2, Float 30.5])),
                    (''West'', Round1 (Mean [Float 41.5, Float 20]))],
               agg_top_states =
                 [(''CA'', ''CA'', 2, ''California''), (''NY'', ''NY'', 1, ''New York''),
                  (''PA'', ''PA'', 1, ''Pennsylvania'')],
               agg_stats =
                 [(''Mean'', Fmt2 (Mean [Float 45.2, Float 41.5, Float 30.5, Float 20])),
                  (''Median'', Fmt2 (Median [Float 45.2, Float 41.5, Float 30.5, Float 20])),
                  (''Minimum'', Fmt2 (Minimum [Float 45.2, Float 41.5, Float 30.5, Float 20])),
                  (''Maximum'', Fmt2 (Maximum [Float 45.2, Float 41.5, Float 30.5, Float 20])),
                  (''Standard Deviation'', Fmt2 (Std [Float 45.2, Float 41.5, Float 30.5, Float 20]))]\<rparr> =
     By_Region [(''Northeast'', 2, Round1 (Percent 2 4)), (''West'', 2, Round1 (Percent 2 4))] \<and>
   agg_usage
     \<lparr>agg_state_counts =
                 [(''CA'', 2, ''California'', ''West''), (''NY'', 1, ''New York'', ''Northeast''),
                  (''PA'', 1, ''Pennsylvania'', ''Northeast'')],
               agg_distribution =
                 By_Region [(''Northeast'', 2, Round1 (Percent 2 4)),
                            (''West'', 2, Round1 (Percent 2 4))],
               agg_usage =
                 Usage_By_Region
                   [(''Northeast'', Round1 (Mean [Float 45.2, Float 30.5])),
                    (''West'', Round1 (Mean [Float 41.5, Float 20]))],
               agg_top_states =
                 [(''CA'', ''CA'', 2, ''California''), (''NY'', ''NY'', 1, ''New York''),
                  (''PA'', ''PA'', 1, ''Pennsylvania'')],
               agg_stats =
                 [(''Mean'', Fmt2 (Mean [Float 45.2, Float 41.5, Float 30.5, Float 20])),
                  (''Median'', Fmt2 (Median [Float 45.2, Float 41.5, Float 30.5, Float 20])),
                  (''Minimum'', Fmt2 (Minimum [Float 45.2, Float 41.5, Float 30.5, Float 20])),
                  (''Maximum'', Fmt2 (Maximum [Float 45.2, Float 41.5, Float 30.5, Float 20])),
                  (''Standard Deviation'', Fmt2 (Std [Float 45.2, Float 41.5, Float 30.5, Float 20]))]\<rparr> =
     Usage_By_Region
       [(''Northeast'', Round1 (Mean [Float 45.2, Float 30.5])),
        (''West'', Round1 (Mean [Float 41.5, Float 20]))]"
  using filter_by_raw_region_charts_by_resolved_region [OF render_mislabelled_west]
    filter_by_raw_region_charts_by_resolved_region [OF render_mislabelled_all_regions]
    render_mislabelled_west render_mislabelled_all_regions
  by simp

end
